theory Spec2Isabelle
  imports Complex_Main "HOL-Library.Sublist" "HOL-Library.Stream" "HOL-Library.Char_ord"
    "HOL-Library.List_Lexorder"
begin

section \<open>JavaScript values the components compute with\<close>

text \<open>
  Strings are sequences of code units; the model covers the code units below 256
  (ASCII and Latin-1), one \<^typ>\<open>char\<close> each, so that \<open>length\<close> is the
  \<^verbatim>\<open>.length\<close> of the source. Counts and indices are integers. Scores are exact
  rationals: the source computes them in double precision, \<open>1 - i * 0.15\<close> and
  \<open>1 - i * 0.1\<close> for an index \<open>i\<close> below \<open>2^32\<close>, where rounding moves a value by
  less than \<open>10^-6\<close> and so changes neither the order of two scores nor on which side
  of 0 a score other than 0 lies; \<open>1 - 10 * 0.1\<close> is 0 in both.
\<close>

text \<open>
  The characters matched by the regular expression class \<^verbatim>\<open>\s\<close>, which are also the
  characters removed by \<^verbatim>\<open>String.prototype.trim\<close>: tab, line feed, vertical tab,
  form feed, carriage return, space and the no-break space.
\<close>

definition is_space :: "char \<Rightarrow> bool" where
  "is_space c = (of_char c \<in> {9, 10, 11, 12, 13, 32, 160 :: nat})"

text \<open>
  \<^verbatim>\<open>toLowerCase\<close> on one code unit: the letters A to Z and the upper-case letters of
  Latin-1 (192 to 222 without the multiplication sign 215) move up by 32.
\<close>

definition toLowerCase_char :: "char \<Rightarrow> char" where
  "toLowerCase_char c =
     (let n = of_char c :: nat
      in if (65 \<le> n \<and> n \<le> 90) \<or> (192 \<le> n \<and> n \<le> 222 \<and> n \<noteq> 215)
         then char_of (n + 32) else c)"

definition toLowerCase :: "string \<Rightarrow> string" where
  "toLowerCase s = map toLowerCase_char s"

definition trimStart :: "string \<Rightarrow> string" where
  "trimStart s = dropWhile is_space s"

definition trimEnd :: "string \<Rightarrow> string" where
  "trimEnd s = rev (dropWhile is_space (rev s))"

definition trim :: "string \<Rightarrow> string" where
  "trim s = trimEnd (trimStart s)"

text \<open>
  \<^verbatim>\<open>s.split(/\s+/)\<close>: the pieces of \<open>s\<close> between the maximal runs of white space. A
  run at the start or at the end of the string leaves an empty piece there, and the
  empty string splits into one empty piece. \<open>split_piece\<close> reads a piece (kept
  reversed in its first argument), \<open>split_run\<close> reads on inside a run of white space.
\<close>

fun split_piece :: "string \<Rightarrow> string \<Rightarrow> string list"
  and split_run :: "string \<Rightarrow> string list" where
  "split_piece cur [] = [rev cur]"
| "split_piece cur (c # cs) =
     (if is_space c then rev cur # split_run cs else split_piece (c # cur) cs)"
| "split_run [] = [[]]"
| "split_run (c # cs) = (if is_space c then split_run cs else split_piece [c] cs)"

definition split_whitespace :: "string \<Rightarrow> string list" where
  "split_whitespace s = split_piece [] s"

text \<open>The decimal digits of a non-negative integer, as a template literal prints it.\<close>

definition digit :: "nat \<Rightarrow> char" where
  "digit d = ''0123456789'' ! d"

fun decimal :: "nat \<Rightarrow> string" where
  "decimal n = (if n < 10 then [digit n] else decimal (n div 10) @ [digit (n mod 10)])"

declare decimal.simps [simp del]

datatype js_error = RangeError | TypeError

text \<open>
  \<^verbatim>\<open>Array.from({ length: len }, (_, i) => f(i))\<close> for an integer \<open>len\<close>: a negative
  length counts as 0, and a length above \<open>2^32 - 1\<close> is no array length, so that the
  array constructor throws a \<^verbatim>\<open>RangeError\<close>.
\<close>

definition array_from :: "int \<Rightarrow> (nat \<Rightarrow> 'a) \<Rightarrow> js_error + 'a list" where
  "array_from len f =
     (if len > 4294967295 then Inl RangeError else Inr (map f [0..<nat len]))"

text \<open>
  The same with a callback that has an effect on a state \<open>'s\<close>: the callback runs once
  for each index, in ascending order. \<open>n\<close> counts the elements still to produce, \<open>i\<close>
  is the next index.
\<close>

fun array_from_effect :: "nat \<Rightarrow> nat \<Rightarrow> (nat \<Rightarrow> 's \<Rightarrow> 'a \<times> 's) \<Rightarrow> 's \<Rightarrow> 'a list \<times> 's" where
  "array_from_effect 0 i f s = ([], s)"
| "array_from_effect (Suc n) i f s =
     (case f i s of (x, s') \<Rightarrow>
        (case array_from_effect n (Suc i) f s' of (xs, s'') \<Rightarrow> (x # xs, s'')))"

section \<open>VectorProcessor\<close>

text \<open>
  \<^verbatim>\<open>Math.random()\<close> draws from a source of numbers that the model passes along as a
  stream: a call returns the head and leaves the tail.
\<close>

type_synonym random_source = "rat stream"

definition math_random :: "random_source \<Rightarrow> rat \<times> random_source" where
  "math_random src = (shd src, stl src)"

text \<open>
  \<^verbatim>\<open>embedText\<close> waits 500 ms (no effect on the value) and returns
  \<^verbatim>\<open>Array.from({ length: 1536 }, () => Math.random())\<close>; the text is not read.
\<close>

definition embedText :: "string \<Rightarrow> random_source \<Rightarrow> rat list \<times> random_source" where
  "embedText text src = array_from_effect 1536 0 (\<lambda>i. math_random) src"

record similar_item =
  si_id :: string
  si_score :: rat
  si_content :: string

text \<open>
  \<^verbatim>\<open>findSimilar(text, topK = 5)\<close>: after a delay, \<open>topK\<close> mock items with the scores
  \<^verbatim>\<open>1 - i * 0.1\<close>.
\<close>

definition similar_mock :: "nat \<Rightarrow> similar_item" where
  "similar_mock i =
     \<lparr> si_id = ''mock-id-'' @ decimal i,
       si_score = 1 - of_nat i * (1 / 10),
       si_content = ''This is a mock similar item '' @ decimal (i + 1) \<rparr>"

definition findSimilar :: "string \<Rightarrow> int \<Rightarrow> js_error + similar_item list" where
  "findSimilar text topK = array_from topK similar_mock"

section \<open>QueryEngine\<close>

datatype RetrievalStrategy = Semantic | Keyword | Hybrid

fun strategy_name :: "RetrievalStrategy \<Rightarrow> string" where
  "strategy_name Semantic = ''semantic''"
| "strategy_name Keyword = ''keyword''"
| "strategy_name Hybrid = ''hybrid''"

text \<open>The values stored in \<^verbatim>\<open>metadata: Record<string, any>\<close> by this component.\<close>

datatype js_value = JString string | JNumber int

record RetrievalResult =
  rr_id :: string
  rr_content :: string
  rr_score :: rat
  rr_metadata :: "string \<rightharpoonup> js_value"

record ProcessedQuery =
  originalQuery :: string
  processedQuery :: string
  keyTerms :: "string list"
  queryVector :: "rat list"

text \<open>The state of the component, one field for each \<^verbatim>\<open>useState\<close>.\<close>

record Filters =
  f_bookname :: string
  f_chapter :: string

record QueryEngine =
  query :: string
  isSearching :: bool
  results :: "RetrievalResult list"
  strategy :: RetrievalStrategy
  filters :: Filters
  showFilters :: bool

text \<open>The state in which the component starts.\<close>

definition initial_engine :: QueryEngine where
  "initial_engine =
     \<lparr> query = [], isSearching = False, results = [], strategy = Hybrid,
       filters = \<lparr> f_bookname = [], f_chapter = [] \<rparr>, showFilters = False \<rparr>"

definition processQuery :: "string \<Rightarrow> ProcessedQuery" where
  "processQuery queryText =
     \<lparr> originalQuery = queryText,
       processedQuery = trim (toLowerCase queryText),
       keyTerms = filter (\<lambda>term. length term > 3) (split_whitespace (toLowerCase queryText)),
       queryVector = [] \<rparr>"

text \<open>
  \<^verbatim>\<open>filters.bookname || "Sample Medical Book"\<close>: the default stands in for a missing
  key and for the empty string.
\<close>

definition or_default :: "string option \<Rightarrow> string \<Rightarrow> string" where
  "or_default v d = (case v of None \<Rightarrow> d | Some s \<Rightarrow> if s = [] then d else s)"

definition mockResult ::
  "string \<Rightarrow> RetrievalStrategy \<Rightarrow> (string \<rightharpoonup> string) \<Rightarrow> nat \<Rightarrow> RetrievalResult" where
  "mockResult pq strat flt i =
     \<lparr> rr_id = ''result-'' @ decimal i,
       rr_content =
         ''This is a sample result for query \"'' @ pq @ ''\" using '' @ strategy_name strat
           @ '' strategy. ''
           @ (if i = 0 then ''This is the most relevant result.''
              else ''This is result number '' @ decimal (i + 1) @ ''.''),
       rr_score = 1 - of_nat i * (15 / 100),
       rr_metadata =
         [''bookname'' \<mapsto> JString (or_default (flt ''bookname'') ''Sample Medical Book''),
          ''chapter'' \<mapsto>
            JString (or_default (flt ''chapter'') (''Chapter '' @ decimal (i + 1))),
          ''question_number'' \<mapsto> JNumber (int i + 1)] \<rparr>"

text \<open>
  \<^verbatim>\<open>retrieveRelevantContent(processedQuery, strategy, filters, topK = 5)\<close>: sets
  \<open>isSearching\<close>, waits, builds \<open>topK\<close> mock results and clears \<open>isSearching\<close>. When
  the array cannot be built the exception leaves the function before the flag is
  cleared.
\<close>

definition retrieveRelevantContent ::
  "string \<Rightarrow> RetrievalStrategy \<Rightarrow> (string \<rightharpoonup> string) \<Rightarrow> int \<Rightarrow> QueryEngine
     \<Rightarrow> (js_error + RetrievalResult list) \<times> QueryEngine" where
  "retrieveRelevantContent pq strat flt topK st =
     (let st1 = st\<lparr>isSearching := True\<rparr>
      in case array_from topK (mockResult pq strat flt) of
           Inl e \<Rightarrow> (Inl e, st1)
         | Inr mockResults \<Rightarrow> (Inr mockResults, st1\<lparr>isSearching := False\<rparr>))"

definition filters_object :: "Filters \<Rightarrow> (string \<rightharpoonup> string)" where
  "filters_object f = [''bookname'' \<mapsto> f_bookname f, ''chapter'' \<mapsto> f_chapter f]"

text \<open>
  \<^verbatim>\<open>handleSearch\<close>: nothing happens for a query that is empty after trimming; otherwise
  the processed query is retrieved with the default \<open>topK = 5\<close> and the results stored.
\<close>

definition handleSearch :: "QueryEngine \<Rightarrow> QueryEngine" where
  "handleSearch st =
     (if trim (query st) = [] then st
      else let processedQueryData = processQuery (query st)
           in case retrieveRelevantContent (processedQuery processedQueryData) (strategy st)
                     (filters_object (filters st)) 5 st of
                (Inl e, st') \<Rightarrow> st'
              | (Inr rs, st') \<Rightarrow> st'\<lparr>results := rs\<rparr>)"

text \<open>
  The key terms as the specification words them, to be compared with \<open>keyTerms\<close>:
  the text is lowercased and trimmed, split at every separator character, the tokens
  (the non-empty pieces) longer than 3 are kept, and a token that occurred before is
  dropped. The specification's separators are white space and punctuation.
\<close>

definition is_punctuation :: "char \<Rightarrow> bool" where
  "is_punctuation c =
     (let n = of_char c :: nat
      in (33 \<le> n \<and> n \<le> 47) \<or> (58 \<le> n \<and> n \<le> 64) \<or> (91 \<le> n \<and> n \<le> 96)
         \<or> (123 \<le> n \<and> n \<le> 126))"

fun split_on :: "(char \<Rightarrow> bool) \<Rightarrow> string \<Rightarrow> string list" where
  "split_on sep [] = [[]]"
| "split_on sep (c # cs) =
     (if sep c then [] # split_on sep cs
      else case split_on sep cs of [] \<Rightarrow> [[c]] | t # ts \<Rightarrow> (c # t) # ts)"

definition spec_tokens :: "(char \<Rightarrow> bool) \<Rightarrow> string \<Rightarrow> string list" where
  "spec_tokens sep s = filter (\<lambda>t. t \<noteq> []) (split_on sep s)"

fun first_occurrences :: "'a list \<Rightarrow> 'a list \<Rightarrow> 'a list" where
  "first_occurrences seen [] = []"
| "first_occurrences seen (x # xs) =
     (if x \<in> set seen then first_occurrences seen xs
      else x # first_occurrences (x # seen) xs)"

definition spec_key_terms :: "string \<Rightarrow> string list" where
  "spec_key_terms raw_text =
     first_occurrences []
       (filter (\<lambda>t. length t > 3)
          (spec_tokens (\<lambda>c. is_space c \<or> is_punctuation c) (trim (toLowerCase raw_text))))"

section \<open>DataConnector\<close>

text \<open>
  \<open>q_options\<close> holds the entries of \<^verbatim>\<open>options: Record<string, string>\<close> in the order
  in which \<^verbatim>\<open>Object.entries\<close> lists them.
\<close>

record QuizQuestion =
  q_id :: string
  q_question :: string
  q_options :: "(string \<times> string) list"
  q_correct_answer :: string
  q_answer_details :: string
  q_bookname :: string
  q_chapter :: "string option"
  q_chapter_index :: "int option"
  q_question_number :: "int option"
  q_setorder :: "int option"
  q_active :: bool
  q_created_at :: string

record QuestionMetadata =
  m_bookname :: string
  m_chapter :: "string option"
  m_chapter_index :: "int option"
  m_question_number :: "int option"
  m_correct_answer :: string

record VectorReadyQuestion =
  v_id :: string
  v_content :: string
  v_metadata :: QuestionMetadata

text \<open>\<^verbatim>\<open>Array.prototype.join\<close> on strings.\<close>

fun join :: "string \<Rightarrow> string list \<Rightarrow> string" where
  "join sep [] = []"
| "join sep [x] = x"
| "join sep (x # y # ys) = x @ sep @ join sep (y # ys)"

definition optionsText :: "QuizQuestion \<Rightarrow> string" where
  "optionsText question =
     join ''\<newline>'' (map (\<lambda>(key, value). key @ '': '' @ value) (q_options question))"

text \<open>
  The template literal of \<^verbatim>\<open>transformQuestionData\<close> starts with a line break, indents
  its five lines by six spaces and ends with a line break and four spaces; the whole is
  trimmed.
\<close>

definition transformQuestionData :: "QuizQuestion \<Rightarrow> VectorReadyQuestion" where
  "transformQuestionData question =
     \<lparr> v_id = q_id question,
       v_content =
         trim (''\<newline>      Question: '' @ q_question question
               @ ''\<newline>      Options:''
               @ ''\<newline>      '' @ optionsText question
               @ ''\<newline>      Correct Answer: '' @ q_correct_answer question
               @ ''\<newline>      Answer Details: '' @ q_answer_details question
               @ ''\<newline>    ''),
       v_metadata =
         \<lparr> m_bookname = q_bookname question,
           m_chapter = q_chapter question,
           m_chapter_index = q_chapter_index question,
           m_question_number = q_question_number question,
           m_correct_answer = q_correct_answer question \<rparr> \<rparr>"

text \<open>
  The part of the content that the trimming never touches: from \<open>Question:\<close> to the
  colon after \<open>Answer Details\<close>.
\<close>

definition content_head :: "QuizQuestion \<Rightarrow> string" where
  "content_head question =
     ''Question: '' @ q_question question
       @ ''\<newline>      Options:\<newline>      '' @ optionsText question
       @ ''\<newline>      Correct Answer: '' @ q_correct_answer question
       @ ''\<newline>      Answer Details:''"

text \<open>A question whose answer details end in a space.\<close>

definition sample_question :: QuizQuestion where
  "sample_question =
     \<lparr> q_id = ''q-1'', q_question = ''Which vessel supplies the heart?'',
       q_options = [(''A'', ''Coronary artery''), (''B'', ''Renal artery'')],
       q_correct_answer = ''A'', q_answer_details = ''See chapter 3. '',
       q_bookname = ''Anatomy'', q_chapter = Some ''Heart'', q_chapter_index = Some 3,
       q_question_number = Some 12, q_setorder = None, q_active = True,
       q_created_at = ''2024-01-01'' \<rparr>"

section \<open>EnvironmentSetup\<close>

datatype ConfigStatus = Unconfigured | Configuring | Testing | Valid | Invalid

text \<open>
  A \<^verbatim>\<open>ServiceConfig\<close> and a \<^verbatim>\<open>Partial<ServiceConfig>\<close> are objects with some of the
  five properties: maps from the property to its value. The list of configurations is
  an array whose slots hold an object or nothing (an empty slot reads as
  \<^verbatim>\<open>undefined\<close>, as does every index outside the array).
\<close>

datatype config_field = Name | Status | Key | Endpoint | Description

datatype config_value = Text string | StatusValue ConfigStatus

type_synonym config_object = "config_field \<rightharpoonup> config_value"

type_synonym config_array = "config_object option list"

text \<open>\<^verbatim>\<open>...x\<close> inside an object literal: \<^verbatim>\<open>undefined\<close> spreads no property.\<close>

fun spread :: "config_object option \<Rightarrow> config_object" where
  "spread None = Map.empty"
| "spread (Some obj) = obj"

definition array_get :: "'a option list \<Rightarrow> int \<Rightarrow> 'a option" where
  "array_get xs i = (if 0 \<le> i \<and> i < int (length xs) then xs ! nat i else None)"

text \<open>
  \<^verbatim>\<open>xs[i] = v\<close>: an index inside the array replaces the slot, an index beyond its end
  extends the array over empty slots, and a number that is no array index (negative, or
  above \<open>2^32 - 2\<close>) adds a property that is no element, so that the elements stay as
  they are. The model keeps the elements only: they are all that the copy
  \<^verbatim>\<open>[...configs]\<close>, \<^verbatim>\<open>configs.map\<close> and \<^verbatim>\<open>JSON.stringify\<close> read.
\<close>

definition array_set :: "'a option list \<Rightarrow> int \<Rightarrow> 'a \<Rightarrow> 'a option list" where
  "array_set xs i v =
     (if i < 0 \<or> 4294967294 < i then xs
      else if nat i < length xs then xs[nat i := Some v]
      else xs @ replicate (nat i - length xs) None @ [Some v])"

record EnvironmentSetup =
  configs :: config_array
  activeTab :: string
  isSaving :: bool
  saveSuccess :: bool

definition initial_configs :: config_array where
  "initial_configs =
     [Some [Name \<mapsto> Text ''openrouter'', Status \<mapsto> StatusValue Unconfigured,
            Key \<mapsto> Text [], Endpoint \<mapsto> Text ''https://openrouter.ai/api/v1'',
            Description \<mapsto> Text ''OpenRouter API for accessing Deepseek-r1 model''],
      Some [Name \<mapsto> Text ''supabase'', Status \<mapsto> StatusValue Unconfigured,
            Key \<mapsto> Text [], Endpoint \<mapsto> Text [],
            Description \<mapsto> Text ''Supabase for database and vector storage'']]"

definition initial_state :: EnvironmentSetup where
  "initial_state =
     \<lparr> configs = initial_configs, activeTab = ''api-keys'', isSaving = False,
       saveSuccess = False \<rparr>"

text \<open>
  Every render of the component creates its functions anew, and each of them reads the
  \<open>configs\<close> of that render: the list \<open>captured\<close> below. \<^verbatim>\<open>setConfigs\<close> replaces
  the list of the current state. For a function called from the render that shows the
  current state, \<open>captured\<close> is \<open>configs st\<close>; a function that runs on after an
  \<^verbatim>\<open>await\<close> still holds the list of the render that started it.
\<close>

text \<open>
  \<^verbatim>\<open>updateConfig(index, updates)\<close>: copies the captured array, stores
  \<^verbatim>\<open>{ ...newConfigs[index], ...updates }\<close> at \<open>index\<close> and sets the state to the copy.
\<close>

definition updateConfig ::
  "config_array \<Rightarrow> int \<Rightarrow> config_object \<Rightarrow> EnvironmentSetup \<Rightarrow> EnvironmentSetup" where
  "updateConfig captured index updates st =
     (let newConfigs = captured;
          newConfigs = array_set newConfigs index (spread (array_get newConfigs index) ++ updates)
      in st\<lparr>configs := newConfigs\<rparr>)"

text \<open>The \<^verbatim>\<open>onChange\<close> handler of the key input of entry \<open>index\<close>.\<close>

definition keyInput_onChange ::
  "config_array \<Rightarrow> int \<Rightarrow> string \<Rightarrow> EnvironmentSetup \<Rightarrow> EnvironmentSetup" where
  "keyInput_onChange captured index v st =
     updateConfig captured index [Key \<mapsto> Text v, Status \<mapsto> StatusValue Configuring] st"

text \<open>
  \<^verbatim>\<open>testConfig(index)\<close> reads \<^verbatim>\<open>configs[index]\<close>, sets the status to
  \<open>testing\<close> and waits 1500 ms (\<open>testConfig_start\<close>); then it sets the status to
  \<open>valid\<close> when the trimmed key it read is longer than 10 and to \<open>invalid\<close> otherwise
  (\<open>testConfig_resume\<close>). Both halves belong to one call and hold the same captured
  list. Reading the key of an entry that is not there is a \<^verbatim>\<open>TypeError\<close>.
\<close>

definition testConfig_start :: "config_array \<Rightarrow> int \<Rightarrow> EnvironmentSetup \<Rightarrow> EnvironmentSetup" where
  "testConfig_start captured index st =
     updateConfig captured index [Status \<mapsto> StatusValue Testing] st"

definition testConfig_resume ::
  "config_array \<Rightarrow> int \<Rightarrow> EnvironmentSetup \<Rightarrow> js_error + EnvironmentSetup" where
  "testConfig_resume captured index st =
     (case array_get captured index of
        None \<Rightarrow> Inl TypeError
      | Some config \<Rightarrow>
          (case config Key of
             Some (Text k) \<Rightarrow>
               if length (trim k) > 10
               then Inr (updateConfig captured index [Status \<mapsto> StatusValue Valid] st)
               else Inr (updateConfig captured index [Status \<mapsto> StatusValue Invalid] st)
           | _ \<Rightarrow> Inl TypeError))"

text \<open>
  A session: the user enters a key for the first entry and clicks its test button
  (\<open>test_clicked\<close> is the state shown at that moment); while the test waits, the user
  enters a key for the second entry (\<open>edited_while_testing\<close>).
\<close>

definition test_clicked :: EnvironmentSetup where
  "test_clicked =
     keyInput_onChange (configs initial_state) 0 ''sk-or-v1-0123456789'' initial_state"

definition edited_while_testing :: EnvironmentSetup where
  "edited_while_testing =
     (let testing = testConfig_start (configs test_clicked) 0 test_clicked
      in keyInput_onChange (configs testing) 1 ''sb-key'' testing)"

section \<open>Properties of the embedding\<close>

lemma length_array_from_effect: "length (fst (array_from_effect n i f s)) = n"
proof (induction n arbitrary: i s)
  case 0
  show ?case by simp
next
  case (Suc n)
  obtain x s' where step: "f i s = (x, s')"
    by (cases "f i s")
  obtain xs s'' where rest: "array_from_effect n (Suc i) f s' = (xs, s'')"
    by (cases "array_from_effect n (Suc i) f s'")
  from Suc.IH [of "Suc i" s'] rest have "length xs = n"
    by simp
  with step rest show ?case
    by simp
qed

text \<open>
  C8: for every input text and every state of the random source, the vector returned
  by \<open>embedText\<close> has exactly 1536 components.
\<close>

theorem embedText_dimension: "length (fst (embedText text src)) = 1536"
  unfolding embedText_def by (rule length_array_from_effect)

section \<open>Properties of retrieval\<close>

lemma retrieve_result:
  "topK \<le> 4294967295 \<Longrightarrow>
   fst (retrieveRelevantContent pq strat flt topK st)
     = Inr (map (mockResult pq strat flt) [0..<nat topK])"
  by (simp add: retrieveRelevantContent_def array_from_def)


lemma retrieve_state_independent:
  "fst (retrieveRelevantContent pq strat flt topK st')
     = fst (retrieveRelevantContent pq strat flt topK st)"
  by (simp add: retrieveRelevantContent_def Let_def split: sum.splits)

text \<open>
  C1, as the code has it: for every query, strategy, filter object and state, retrieval
  with \<open>topK \<le> 0\<close> returns the empty result sequence; no error is raised.
\<close>

theorem retrieve_nonpositive_topK:
  "topK \<le> 0 \<Longrightarrow> fst (retrieveRelevantContent pq strat flt topK st) = Inr []"
  by (simp add: retrieve_result)

theorem retrieve_nonpositive_topK_witness:
  "(0::int) \<le> 0
   \<and> fst (retrieveRelevantContent ''heart'' Keyword Map.empty 0 initial_engine) = Inr []"
  using retrieve_nonpositive_topK [of 0 "''heart''" Keyword Map.empty initial_engine] by simp

text \<open>
  C1 as stated fails: with \<open>topK = 0\<close> each of the three strategies returns a result
  sequence, the empty one, and not an error.
\<close>

theorem retrieve_zero_topK_no_error:
  "fst (retrieveRelevantContent ''heart'' Semantic Map.empty 0 initial_engine) = Inr []
   \<and> fst (retrieveRelevantContent ''heart'' Keyword Map.empty 0 initial_engine) = Inr []
   \<and> fst (retrieveRelevantContent ''heart'' Hybrid Map.empty 0 initial_engine) = Inr []"
  by (simp add: retrieveRelevantContent_def array_from_def)

lemma mock_score_le_one: "rr_score (mockResult pq strat flt i) \<le> 1"
  by (simp add: mockResult_def)

lemma mock_score_nonneg: "i < 7 \<Longrightarrow> 0 \<le> rr_score (mockResult pq strat flt i)"
proof -
  assume "i < 7"
  then have "i \<le> 6"
    by simp
  then have "(of_nat i :: rat) \<le> of_nat 6"
    by (simp only: of_nat_le_iff)
  then show ?thesis
    by (simp add: mockResult_def)
qed

lemma mock_score_negative: "7 \<le> i \<Longrightarrow> rr_score (mockResult pq strat flt i) < 0"
proof -
  assume "7 \<le> i"
  then have "(of_nat 7 :: rat) \<le> of_nat i"
    by (simp only: of_nat_le_iff)
  then show ?thesis
    by (simp add: mockResult_def)
qed

lemma similar_score_le_one: "si_score (similar_mock i) \<le> 1"
  by (simp add: similar_mock_def)

lemma similar_score_nonneg: "i < 11 \<Longrightarrow> 0 \<le> si_score (similar_mock i)"
proof -
  assume "i < 11"
  then have "i \<le> 10"
    by simp
  then have "(of_nat i :: rat) \<le> of_nat 10"
    by (simp only: of_nat_le_iff)
  then show ?thesis
    by (simp add: similar_mock_def)
qed

lemma similar_score_negative: "11 \<le> i \<Longrightarrow> si_score (similar_mock i) < 0"
proof -
  assume "11 \<le> i"
  then have "(of_nat 11 :: rat) \<le> of_nat i"
    by (simp only: of_nat_le_iff)
  then show ?thesis
    by (simp add: similar_mock_def)
qed

lemma take_upt_min: "take m [0..<n] = [0..<min m n]"
  by (cases "m \<le> n") (simp_all add: min_def)

lemma similar_scores:
  "list_all (\<lambda>x. si_score x \<le> 1) (map similar_mock [0..<n])"
  "list_all (\<lambda>x. 0 \<le> si_score x) (take 11 (map similar_mock [0..<n]))"
  "list_all (\<lambda>x. si_score x < 0) (drop 11 (map similar_mock [0..<n]))"
  "n \<le> 11 \<Longrightarrow> list_all (\<lambda>x. 0 \<le> si_score x \<and> si_score x \<le> 1) (map similar_mock [0..<n])"
  by (auto simp: list_all_iff take_map drop_map take_upt_min similar_score_le_one
      intro: similar_score_nonneg similar_score_negative)

lemma mock_scores:
  "list_all (\<lambda>r. rr_score r \<le> 1) (map (mockResult pq strat flt) [0..<n])"
  "list_all (\<lambda>r. 0 \<le> rr_score r) (take 7 (map (mockResult pq strat flt) [0..<n]))"
  "list_all (\<lambda>r. rr_score r < 0) (drop 7 (map (mockResult pq strat flt) [0..<n]))"
  "n \<le> 7 \<Longrightarrow> list_all (\<lambda>r. 0 \<le> rr_score r \<and> rr_score r \<le> 1) (map (mockResult pq strat flt) [0..<n])"
  by (auto simp: list_all_iff take_map drop_map take_upt_min mock_score_le_one
      intro: mock_score_nonneg mock_score_negative)

text \<open>
  C4, as the code has it: for every \<open>topK\<close> below \<open>2^32\<close>, \<open>findSimilar\<close> returns
  \<open>max topK 0\<close> scores, each at most 1, of which the first 11 are at least 0 and every
  later one is negative; \<open>retrieveRelevantContent\<close> returns \<open>max topK 0\<close> scores, each
  at most 1, of which the first 7 are at least 0 and every later one is negative. So
  every score lies in \<open>[0,1]\<close> when \<open>topK \<le> 11\<close> for \<open>findSimilar\<close> and when
  \<open>topK \<le> 7\<close> for retrieval, which includes the default \<open>topK = 5\<close>.
\<close>

theorem scores_in_unit_interval:
  "(topK \<le> 4294967295 \<longrightarrow>
      (\<exists>xs. findSimilar text topK = Inr xs \<and> length xs = nat topK
            \<and> list_all (\<lambda>x. si_score x \<le> 1) xs
            \<and> list_all (\<lambda>x. 0 \<le> si_score x) (take 11 xs)
            \<and> list_all (\<lambda>x. si_score x < 0) (drop 11 xs)
            \<and> (topK \<le> 11 \<longrightarrow> list_all (\<lambda>x. 0 \<le> si_score x \<and> si_score x \<le> 1) xs)))
   \<and> (k \<le> 4294967295 \<longrightarrow>
      (\<exists>rs. fst (retrieveRelevantContent pq strat flt k st) = Inr rs \<and> length rs = nat k
            \<and> list_all (\<lambda>r. rr_score r \<le> 1) rs
            \<and> list_all (\<lambda>r. 0 \<le> rr_score r) (take 7 rs)
            \<and> list_all (\<lambda>r. rr_score r < 0) (drop 7 rs)
            \<and> (k \<le> 7 \<longrightarrow> list_all (\<lambda>r. 0 \<le> rr_score r \<and> rr_score r \<le> 1) rs)))"
proof (intro conjI impI)
  let ?xs = "map similar_mock [0..<nat topK]"
  assume "topK \<le> 4294967295"
  then have "findSimilar text topK = Inr ?xs"
    by (simp add: findSimilar_def array_from_def)
  moreover have "length ?xs = nat topK"
    by simp
  moreover have "topK \<le> 11 \<longrightarrow> list_all (\<lambda>x. 0 \<le> si_score x \<and> si_score x \<le> 1) ?xs"
    by (simp add: similar_scores(4))
  ultimately
  show "\<exists>xs. findSimilar text topK = Inr xs \<and> length xs = nat topK
            \<and> list_all (\<lambda>x. si_score x \<le> 1) xs
            \<and> list_all (\<lambda>x. 0 \<le> si_score x) (take 11 xs)
            \<and> list_all (\<lambda>x. si_score x < 0) (drop 11 xs)
            \<and> (topK \<le> 11 \<longrightarrow> list_all (\<lambda>x. 0 \<le> si_score x \<and> si_score x \<le> 1) xs)"
    using similar_scores(1-3) [of "nat topK"] by blast
next
  let ?rs = "map (mockResult pq strat flt) [0..<nat k]"
  assume "k \<le> 4294967295"
  then have "fst (retrieveRelevantContent pq strat flt k st) = Inr ?rs"
    by (rule retrieve_result)
  moreover have "length ?rs = nat k"
    by simp
  moreover have "k \<le> 7 \<longrightarrow> list_all (\<lambda>r. 0 \<le> rr_score r \<and> rr_score r \<le> 1) ?rs"
    by (simp add: mock_scores(4))
  ultimately
  show "\<exists>rs. fst (retrieveRelevantContent pq strat flt k st) = Inr rs \<and> length rs = nat k
            \<and> list_all (\<lambda>r. rr_score r \<le> 1) rs
            \<and> list_all (\<lambda>r. 0 \<le> rr_score r) (take 7 rs)
            \<and> list_all (\<lambda>r. rr_score r < 0) (drop 7 rs)
            \<and> (k \<le> 7 \<longrightarrow> list_all (\<lambda>r. 0 \<le> rr_score r \<and> rr_score r \<le> 1) rs)"
    using mock_scores(1-3) [of pq strat flt "nat k"] by blast
qed

theorem scores_in_unit_interval_witness:
  "(12::int) \<le> 4294967295
   \<and> (\<exists>xs. findSimilar ''heart'' 12 = Inr xs \<and> length xs = 12
           \<and> list_all (\<lambda>x. si_score x \<le> 1) xs
           \<and> list_all (\<lambda>x. 0 \<le> si_score x) (take 11 xs)
           \<and> list_all (\<lambda>x. si_score x < 0) (drop 11 xs) \<and> drop 11 xs \<noteq> [])
   \<and> (11::int) \<le> 11
   \<and> (\<exists>xs. findSimilar ''heart'' 11 = Inr xs \<and> length xs = 11
           \<and> list_all (\<lambda>x. 0 \<le> si_score x \<and> si_score x \<le> 1) xs)
   \<and> (8::int) \<le> 4294967295
   \<and> (\<exists>rs. fst (retrieveRelevantContent ''heart'' Hybrid Map.empty 8 initial_engine) = Inr rs
           \<and> length rs = 8
           \<and> list_all (\<lambda>r. rr_score r \<le> 1) rs
           \<and> list_all (\<lambda>r. 0 \<le> rr_score r) (take 7 rs)
           \<and> list_all (\<lambda>r. rr_score r < 0) (drop 7 rs) \<and> drop 7 rs \<noteq> [])
   \<and> (7::int) \<le> 7
   \<and> (\<exists>rs. fst (retrieveRelevantContent ''heart'' Hybrid Map.empty 7 initial_engine) = Inr rs
           \<and> length rs = 7
           \<and> list_all (\<lambda>r. 0 \<le> rr_score r \<and> rr_score r \<le> 1) rs)"
proof -
  note large = scores_in_unit_interval
    [of 12 "''heart''" 8 "''heart''" Hybrid Map.empty initial_engine]
  note small = scores_in_unit_interval
    [of 11 "''heart''" 7 "''heart''" Hybrid Map.empty initial_engine]
  from large obtain xs where xs: "findSimilar ''heart'' 12 = Inr xs" "length xs = 12"
      "list_all (\<lambda>x. si_score x \<le> 1) xs" "list_all (\<lambda>x. 0 \<le> si_score x) (take 11 xs)"
      "list_all (\<lambda>x. si_score x < 0) (drop 11 xs)"
    by auto
  from large obtain rs where rs:
      "fst (retrieveRelevantContent ''heart'' Hybrid Map.empty 8 initial_engine) = Inr rs"
      "length rs = 8"
      "list_all (\<lambda>r. rr_score r \<le> 1) rs" "list_all (\<lambda>r. 0 \<le> rr_score r) (take 7 rs)"
      "list_all (\<lambda>r. rr_score r < 0) (drop 7 rs)"
    by auto
  from small obtain ys where ys: "findSimilar ''heart'' 11 = Inr ys" "length ys = 11"
      "list_all (\<lambda>x. 0 \<le> si_score x \<and> si_score x \<le> 1) ys"
    by auto
  from small obtain qs where qs:
      "fst (retrieveRelevantContent ''heart'' Hybrid Map.empty 7 initial_engine) = Inr qs"
      "length qs = 7"
      "list_all (\<lambda>r. 0 \<le> rr_score r \<and> rr_score r \<le> 1) qs"
    by auto
  from xs(2) have "drop 11 xs \<noteq> []"
    by simp
  moreover from rs(2) have "drop 7 rs \<noteq> []"
    by simp
  ultimately show ?thesis
    using xs rs ys qs by simp
qed

text \<open>
  C4 as stated fails: \<open>findSimilar\<close> with \<open>topK = 12\<close> returns the score \<open>-1/10\<close>, and
  retrieval with \<open>topK = 8\<close> returns the score \<open>-1/20\<close>.
\<close>

theorem negative_scores:
  "map_sum id (map si_score) (findSimilar ''heart'' 12)
     = Inr [1, 9 / 10, 4 / 5, 7 / 10, 3 / 5, 1 / 2, 2 / 5, 3 / 10, 1 / 5, 1 / 10, 0, - (1 / 10)]
   \<and> map_sum id (map rr_score)
        (fst (retrieveRelevantContent ''heart'' Hybrid Map.empty 8 initial_engine))
     = Inr [1, 17 / 20, 7 / 10, 11 / 20, 2 / 5, 1 / 4, 1 / 10, - (1 / 20)]"
  by code_simp

text \<open>
  C5, as the code has it: for every query whose key terms are empty, keyword retrieval
  with \<open>topK\<close> below \<open>2^32\<close> raises no error and returns exactly \<open>max topK 0\<close>
  results, so that the result is empty only for \<open>topK \<le> 0\<close>.
\<close>

theorem empty_key_terms_retrieval:
  assumes "keyTerms (processQuery raw) = []" and "topK \<le> 4294967295"
  shows "\<exists>rs. fst (retrieveRelevantContent (processedQuery (processQuery raw)) Keyword flt topK st)
                = Inr rs
              \<and> length rs = nat topK"
  using assms(2) by (simp add: retrieve_result)

theorem empty_key_terms_retrieval_witness:
  "keyTerms (processQuery ''abc'') = []
   \<and> (5::int) \<le> 4294967295
   \<and> (\<exists>rs. fst (retrieveRelevantContent (processedQuery (processQuery ''abc'')) Keyword
                  Map.empty 5 initial_engine) = Inr rs
           \<and> length rs = nat 5)"
proof -
  have empty: "keyTerms (processQuery ''abc'') = []"
    by code_simp
  have small: "(5::int) \<le> 4294967295"
    by simp
  from empty small empty_key_terms_retrieval [OF empty small, of Map.empty initial_engine]
  show ?thesis
    by blast
qed

text \<open>
  C5 as stated fails: the query \<open>abc\<close> has no key term, and keyword retrieval with the
  default \<open>topK = 5\<close> returns five results, as does \<open>handleSearch\<close>.
\<close>

theorem empty_key_terms_five_results:
  "keyTerms (processQuery ''abc'') = []
   \<and> map_sum id (map rr_id)
        (fst (retrieveRelevantContent (processedQuery (processQuery ''abc'')) Keyword
                Map.empty 5 initial_engine))
     = Inr [''result-0'', ''result-1'', ''result-2'', ''result-3'', ''result-4'']
   \<and> length (results (handleSearch (initial_engine\<lparr>query := ''abc'', strategy := Keyword\<rparr>))) = 5"
  by code_simp




text \<open>
  C7: a second search with the same arguments returns the same result sequence as the
  first. The result of \<open>retrieveRelevantContent\<close> does not depend on the state the
  first call leaves, and \<open>handleSearch\<close> run twice stores the same results.
\<close>

theorem search_twice_same_results:
  "fst (retrieveRelevantContent pq strat flt k (snd (retrieveRelevantContent pq strat flt k st)))
     = fst (retrieveRelevantContent pq strat flt k st)
   \<and> results (handleSearch (handleSearch st)) = results (handleSearch st)"
proof
  show "fst (retrieveRelevantContent pq strat flt k
               (snd (retrieveRelevantContent pq strat flt k st)))
          = fst (retrieveRelevantContent pq strat flt k st)"
    by (rule retrieve_state_independent)
next
  show "results (handleSearch (handleSearch st)) = results (handleSearch st)"
    by (simp add: handleSearch_def retrieveRelevantContent_def array_from_def Let_def)
qed

lemma mock_metadata_dom:
  "dom (rr_metadata (mockResult pq strat flt i)) = {''bookname'', ''chapter'', ''question_number''}"
  by (auto simp: mockResult_def)

text \<open>
  C3, as the code has it: \<open>processQuery\<close> never produces a query vector, and semantic
  retrieval does not read one: for every \<open>topK\<close> below \<open>2^32\<close> it succeeds with the
  scores that keyword retrieval returns. Its result is a plain sequence of results
  whose metadata holds a book name, a chapter and a question number and nothing else:
  no flag reports the missing vector.
\<close>

theorem semantic_without_vector:
  assumes "topK \<le> 4294967295"
  shows "queryVector (processQuery raw) = []
         \<and> (\<exists>rs ks.
               fst (retrieveRelevantContent (processedQuery (processQuery raw)) Semantic
                      flt topK st) = Inr rs
             \<and> fst (retrieveRelevantContent (processedQuery (processQuery raw)) Keyword
                      flt topK st) = Inr ks
             \<and> map rr_score rs = map rr_score ks
             \<and> list_all (\<lambda>r. dom (rr_metadata r)
                              = {''bookname'', ''chapter'', ''question_number''}) rs)"
proof -
  let ?pq = "processedQuery (processQuery raw)"
  have "queryVector (processQuery raw) = []"
    by (simp add: processQuery_def)
  moreover
  have "fst (retrieveRelevantContent ?pq Semantic flt topK st)
          = Inr (map (mockResult ?pq Semantic flt) [0..<nat topK])"
    using assms by (rule retrieve_result)
  moreover
  have "fst (retrieveRelevantContent ?pq Keyword flt topK st)
          = Inr (map (mockResult ?pq Keyword flt) [0..<nat topK])"
    using assms by (rule retrieve_result)
  moreover
  have "map rr_score (map (mockResult ?pq Semantic flt) [0..<nat topK])
          = map rr_score (map (mockResult ?pq Keyword flt) [0..<nat topK])"
    by (simp add: mockResult_def)
  moreover
  have "list_all (\<lambda>r. dom (rr_metadata r) = {''bookname'', ''chapter'', ''question_number''})
          (map (mockResult ?pq Semantic flt) [0..<nat topK])"
    by (simp add: list_all_iff mock_metadata_dom)
  ultimately show ?thesis
    by blast
qed

theorem semantic_without_vector_witness:
  "(2::int) \<le> 4294967295
   \<and> queryVector (processQuery ''heart'') = []
   \<and> (\<exists>rs ks.
         fst (retrieveRelevantContent (processedQuery (processQuery ''heart'')) Semantic
                Map.empty 2 initial_engine) = Inr rs
       \<and> fst (retrieveRelevantContent (processedQuery (processQuery ''heart'')) Keyword
                Map.empty 2 initial_engine) = Inr ks
       \<and> map rr_score rs = map rr_score ks
       \<and> list_all (\<lambda>r. dom (rr_metadata r)
                        = {''bookname'', ''chapter'', ''question_number''}) rs)"
  using semantic_without_vector [of 2 "''heart''" Map.empty initial_engine] by simp

text \<open>
  C3 as stated fails: the query \<open>heart\<close> has no vector, and the two results of semantic
  retrieval carry no \<open>degraded\<close> entry.
\<close>

theorem semantic_result_no_degraded_flag:
  "queryVector (processQuery ''heart'') = []
   \<and> map_sum id (map (\<lambda>r. (rr_id r, rr_score r, rr_metadata r ''degraded'')))
        (fst (retrieveRelevantContent (processedQuery (processQuery ''heart'')) Semantic
                Map.empty 2 initial_engine))
     = Inr [(''result-0'', 1, None), (''result-1'', 17 / 20, None)]"
  by code_simp

section \<open>Properties of the configuration list\<close>

lemma array_get_set_other:
  "j \<noteq> i \<Longrightarrow> array_get (array_set xs i v) j = array_get xs j"
  by (auto simp: array_get_def array_set_def nth_append nth_Cons' nat_eq_iff)

lemma array_get_set_same:
  "0 \<le> i \<Longrightarrow> i \<le> 4294967294 \<Longrightarrow> array_get (array_set xs i v) i = Some v"
  by (auto simp: array_get_def array_set_def nth_append)

lemma array_set_no_index:
  "i < 0 \<or> 4294967294 < i \<Longrightarrow> array_set xs i v = xs"
  by (auto simp: array_set_def)

lemma configs_updateConfig:
  "configs (updateConfig captured index updates st)
     = array_set captured index (spread (array_get captured index) ++ updates)"
  by (simp add: updateConfig_def Let_def)

text \<open>
  Measured against the captured list, \<open>updateConfig\<close> changes nothing but the
  properties that \<open>updates\<close> names in the entry at \<open>index\<close>.
\<close>

lemma updateConfig_captured_frame:
  "(\<forall>j. j \<noteq> index \<longrightarrow>
       array_get (configs (updateConfig captured index updates st)) j = array_get captured j)
   \<and> (\<forall>field. field \<notin> dom updates \<longrightarrow>
       spread (array_get (configs (updateConfig captured index updates st)) index) field
         = spread (array_get captured index) field)"
proof (intro conjI allI impI)
  fix j :: int
  assume "j \<noteq> index"
  then show "array_get (configs (updateConfig captured index updates st)) j = array_get captured j"
    by (simp add: configs_updateConfig array_get_set_other)
next
  fix field
  assume "field \<notin> dom updates"
  then have absent: "updates field = None"
    by (simp add: domIff)
  show "spread (array_get (configs (updateConfig captured index updates st)) index) field
         = spread (array_get captured index) field"
  proof (cases "0 \<le> index \<and> index \<le> 4294967294")
    case True
    then show ?thesis
      using absent by (simp add: configs_updateConfig array_get_set_same map_add_def)
  next
    case False
    then have "index < 0 \<or> 4294967294 < index"
      by auto
    then show ?thesis
      by (simp add: configs_updateConfig array_set_no_index)
  qed
qed

lemma test_clicked_key:
  "array_get (configs test_clicked) 0
     = Some [Name \<mapsto> Text ''openrouter'', Status \<mapsto> StatusValue Unconfigured,
            Key \<mapsto> Text [], Endpoint \<mapsto> Text ''https://openrouter.ai/api/v1'',
            Description \<mapsto> Text ''OpenRouter API for accessing Deepseek-r1 model'',
            Key \<mapsto> Text ''sk-or-v1-0123456789'', Status \<mapsto> StatusValue Configuring]"
  by (simp add: test_clicked_def keyInput_onChange_def configs_updateConfig initial_state_def
      initial_configs_def array_get_def array_set_def)

lemma long_key: "length (trim ''sk-or-v1-0123456789'') > 10"
  by (simp add: trim_def trimStart_def trimEnd_def is_space_def)

text \<open>
  C10 does not hold of the state of the program: \<open>updateConfig index updates\<close> ought to
  leave the entry at every other index as it was, but the call that ends a test of the
  first entry writes back the list captured when the test began, and the second entry
  loses the key entered in the meantime: before the call it has the key \<open>sb-key\<close> and
  the status \<open>configuring\<close>, after it the empty key and the status \<open>unconfigured\<close>.
\<close>

theorem updateConfig_stale_closure:
  "spread (array_get (configs edited_while_testing) 1) Key = Some (Text ''sb-key'')
   \<and> spread (array_get (configs edited_while_testing) 1) Status
       = Some (StatusValue Configuring)
   \<and> testConfig_resume (configs test_clicked) 0 edited_while_testing
       = Inr (updateConfig (configs test_clicked) 0 [Status \<mapsto> StatusValue Valid]
                edited_while_testing)
   \<and> spread (array_get (configs (updateConfig (configs test_clicked) 0
          [Status \<mapsto> StatusValue Valid] edited_while_testing)) 1) Key = Some (Text [])
   \<and> spread (array_get (configs (updateConfig (configs test_clicked) 0
          [Status \<mapsto> StatusValue Valid] edited_while_testing)) 1) Status
       = Some (StatusValue Unconfigured)"
proof -
  have before: "array_get (configs edited_while_testing) 1
      = Some ([Name \<mapsto> Text ''supabase'', Status \<mapsto> StatusValue Unconfigured,
               Key \<mapsto> Text [], Endpoint \<mapsto> Text [],
               Description \<mapsto> Text ''Supabase for database and vector storage'']
              ++ [Key \<mapsto> Text ''sb-key'', Status \<mapsto> StatusValue Configuring])"
    by (simp add: edited_while_testing_def test_clicked_def testConfig_start_def
        keyInput_onChange_def configs_updateConfig initial_state_def initial_configs_def
        array_get_def array_set_def Let_def)
  have resume: "testConfig_resume (configs test_clicked) 0 edited_while_testing
       = Inr (updateConfig (configs test_clicked) 0 [Status \<mapsto> StatusValue Valid]
                edited_while_testing)"
    using long_key by (simp add: testConfig_resume_def test_clicked_key)
  have other: "array_get (configs (updateConfig (configs test_clicked) 0
          [Status \<mapsto> StatusValue Valid] edited_while_testing)) 1
      = array_get (configs test_clicked) 1"
    by (simp add: configs_updateConfig array_get_set_other)
  have stale: "array_get (configs test_clicked) 1
      = Some [Name \<mapsto> Text ''supabase'', Status \<mapsto> StatusValue Unconfigured,
              Key \<mapsto> Text [], Endpoint \<mapsto> Text [],
              Description \<mapsto> Text ''Supabase for database and vector storage'']"
    by (simp add: test_clicked_def keyInput_onChange_def configs_updateConfig
        initial_state_def initial_configs_def array_get_def array_set_def)
  show ?thesis
    by (simp add: before resume other stale)
qed

section \<open>Properties of the query processor\<close>

lemma split_on_not_Nil: "split_on sep s \<noteq> []"
  by (induction s) (auto split: list.splits)

lemma split_piece_run_tokens:
  "filter (\<lambda>t. t \<noteq> []) (split_piece cur cs)
     = filter (\<lambda>t. t \<noteq> [])
         (case split_on is_space cs of [] \<Rightarrow> [rev cur] | t # ts \<Rightarrow> (rev cur @ t) # ts)"
  "filter (\<lambda>t. t \<noteq> []) (split_run cs) = filter (\<lambda>t. t \<noteq> []) (split_on is_space cs)"
proof (induction cur cs and cs rule: split_piece_split_run.induct)
  case (1 cur)
  show ?case by simp
next
  case (2 cur c cs)
  show ?case
  proof (cases "is_space c")
    case True
    with 2 show ?thesis by simp
  next
    case False
    obtain t ts where "split_on is_space cs = t # ts"
      using split_on_not_Nil [of is_space cs] by (cases "split_on is_space cs") auto
    with False 2 show ?thesis by simp
  qed
next
  case 3
  show ?case by simp
next
  case (4 c cs)
  show ?case
  proof (cases "is_space c")
    case True
    with 4 show ?thesis by simp
  next
    case False
    obtain t ts where "split_on is_space cs = t # ts"
      using split_on_not_Nil [of is_space cs] by (cases "split_on is_space cs") auto
    with False 4 show ?thesis by simp
  qed
qed

lemma split_whitespace_tokens:
  "filter (\<lambda>t. t \<noteq> []) (split_whitespace s) = spec_tokens is_space s"
proof -
  obtain t ts where "split_on is_space s = t # ts"
    using split_on_not_Nil [of is_space s] by (cases "split_on is_space s") auto
  then show ?thesis
    by (simp add: split_whitespace_def spec_tokens_def split_piece_run_tokens(1))
qed

lemma spec_tokens_dropWhile: "spec_tokens sep (dropWhile sep s) = spec_tokens sep s"
  by (induction s) (simp_all add: spec_tokens_def)

lemma split_on_snoc_sep: "sep c \<Longrightarrow> split_on sep (s @ [c]) = split_on sep s @ [[]]"
  by (induction s) (auto split: list.splits simp: split_on_not_Nil)

lemma spec_tokens_drop_end: "spec_tokens sep (rev (dropWhile sep (rev s))) = spec_tokens sep s"
proof (induction s rule: rev_induct)
  case Nil
  show ?case by simp
next
  case (snoc x xs)
  show ?case
  proof (cases "sep x")
    case True
    with snoc show ?thesis
      by (simp add: spec_tokens_def split_on_snoc_sep)
  next
    case False
    then show ?thesis by simp
  qed
qed

lemma spec_tokens_trim: "spec_tokens is_space (trim s) = spec_tokens is_space s"
  by (simp add: trim_def trimEnd_def trimStart_def spec_tokens_drop_end spec_tokens_dropWhile)

text \<open>
  C2, as the code has it: the key terms are exactly the tokens of the lowercased,
  trimmed text split on white space alone whose length exceeds 3, in the order in which
  they occur and as often as they occur.
\<close>

theorem keyTerms_whitespace_tokens:
  "keyTerms (processQuery raw)
     = filter (\<lambda>t. length t > 3) (spec_tokens is_space (trim (toLowerCase raw)))"
proof -
  have "keyTerms (processQuery raw)
          = filter (\<lambda>t. length t > 3) (split_whitespace (toLowerCase raw))"
    by (simp add: processQuery_def)
  also have "\<dots> = filter (\<lambda>t. length t > 3)
                     (filter (\<lambda>t. t \<noteq> []) (split_whitespace (toLowerCase raw)))"
    by (auto simp: filter_filter intro: filter_cong)
  also have "\<dots> = filter (\<lambda>t. length t > 3) (spec_tokens is_space (toLowerCase raw))"
    by (simp only: split_whitespace_tokens)
  finally show ?thesis
    by (simp only: spec_tokens_trim)
qed

text \<open>
  C2 as stated fails: a term that occurs twice is kept twice, and a comma does not
  separate two terms.
\<close>

theorem keyTerms_duplicates_and_punctuation:
  "keyTerms (processQuery ''test test'') = [''test'', ''test'']
   \<and> spec_key_terms ''test test'' = [''test'']
   \<and> keyTerms (processQuery ''test test'') \<noteq> spec_key_terms ''test test''
   \<and> keyTerms (processQuery ''Cardiac,Artery'') = [''cardiac,artery'']
   \<and> spec_key_terms ''Cardiac,Artery'' = [''cardiac'', ''artery'']"
  by code_simp

section \<open>Properties of the question transformation\<close>

lemma trimEnd_append:
  "trimEnd (xs @ ys) = (if list_all is_space ys then trimEnd xs else xs @ trimEnd ys)"
  by (simp add: trimEnd_def dropWhile_append list_all_iff)

lemma trimEnd_Cons: "\<not> list_all is_space xs \<Longrightarrow> trimEnd (c # xs) = c # trimEnd xs"
  using trimEnd_append [of "[c]" xs] by simp

lemma trimEnd_snoc_keep: "\<not> is_space c \<Longrightarrow> trimEnd (xs @ [c]) = xs @ [c]"
  by (simp add: trimEnd_def)

lemma sublist_join: "x \<in> set xs \<Longrightarrow> sublist x (join sep xs)"
proof (induction sep xs rule: join.induct)
  case (1 sep)
  then show ?case by simp
next
  case (2 sep y)
  then show ?case by simp
next
  case (3 sep y z zs)
  show ?case
  proof (cases "x = y")
    case True
    then show ?thesis by simp
  next
    case False
    with 3 have "sublist x (join sep (z # zs))" by simp
    then have "sublist x ((y @ sep) @ join sep (z # zs))"
      by (simp only: sublist_append) simp
    then show ?thesis by simp
  qed
qed

lemma content_decomposition:
  "v_content (transformQuestionData question)
     = content_head question
         @ (if list_all is_space (q_answer_details question) then []
            else '' '' @ trimEnd (q_answer_details question))"
proof -
  let ?ad = "q_answer_details question"
  have start: "trimStart (''\<newline>      Question: '' @ q_question question
               @ ''\<newline>      Options:''
               @ ''\<newline>      '' @ optionsText question
               @ ''\<newline>      Correct Answer: '' @ q_correct_answer question
               @ ''\<newline>      Answer Details: '' @ ?ad
               @ ''\<newline>    '')
         = (content_head question @ '' '' @ ?ad) @ ''\<newline>    ''"
    by (simp add: trimStart_def is_space_def content_head_def)
  have tail: "list_all is_space ''\<newline>    ''"
    by (simp add: is_space_def)
  have head: "trimEnd (content_head question) = content_head question"
  proof -
    have colon: "\<not> is_space CHR '':''"
      by (simp add: is_space_def)
    have split: "content_head question = (''Question: '' @ q_question question
       @ ''\<newline>      Options:\<newline>      '' @ optionsText question
       @ ''\<newline>      Correct Answer: '' @ q_correct_answer question
       @ ''\<newline>      Answer Details'') @ [CHR '':'']"
      by (simp add: content_head_def)
    show ?thesis
      unfolding split by (rule trimEnd_snoc_keep [OF colon])
  qed
  have "v_content (transformQuestionData question)
          = trimEnd ((content_head question @ '' '' @ ?ad) @ ''\<newline>    '')"
    by (simp only: transformQuestionData_def trim_def start VectorReadyQuestion.simps)
  also have "\<dots> = trimEnd (content_head question @ ('' '' @ ?ad))"
    using tail by (simp only: trimEnd_append if_True)
  also have "\<dots> = (if list_all is_space ('' '' @ ?ad) then trimEnd (content_head question)
                    else content_head question @ trimEnd ('' '' @ ?ad))"
    by (rule trimEnd_append)
  also have "\<dots> = content_head question
         @ (if list_all is_space ?ad then [] else '' '' @ trimEnd ?ad)"
    by (simp add: head trimEnd_Cons is_space_def)
  finally show ?thesis .
qed

lemma question_in_head: "sublist (q_question question) (content_head question)"
  unfolding content_head_def by (rule sublist_appendI)

lemma optionsText_in_head: "sublist (optionsText question) (content_head question)"
proof -
  have "sublist (optionsText question)
          ((''Question: '' @ q_question question @ ''\<newline>      Options:\<newline>      '')
            @ optionsText question
            @ (''\<newline>      Correct Answer: '' @ q_correct_answer question
               @ ''\<newline>      Answer Details:''))"
    by (rule sublist_appendI)
  then show ?thesis
    by (simp add: content_head_def)
qed

lemma correct_answer_in_head: "sublist (q_correct_answer question) (content_head question)"
proof -
  have "sublist (q_correct_answer question)
          ((''Question: '' @ q_question question @ ''\<newline>      Options:\<newline>      ''
             @ optionsText question @ ''\<newline>      Correct Answer: '')
            @ q_correct_answer question @ ''\<newline>      Answer Details:'')"
    by (rule sublist_appendI)
  then show ?thesis
    by (simp add: content_head_def)
qed

lemma option_in_optionsText:
  assumes "(key, value) \<in> set (q_options question)"
  shows "sublist (key @ '': '' @ value) (optionsText question)"
proof -
  from assms have "key @ '': '' @ value
      \<in> set (map (\<lambda>(key, value). key @ '': '' @ value) (q_options question))"
    by force
  then show ?thesis
    unfolding optionsText_def by (rule sublist_join)
qed

text \<open>
  C9, as the code has it: \<open>transformQuestionData q\<close> keeps the id and copies the five
  metadata fields, and its content contains the question, every option as
  \<open>key: value\<close>, the correct answer, and the answer details without the white space
  at their end (the final \<open>trim\<close> removes it).
\<close>

theorem transformQuestionData_content:
  "v_id (transformQuestionData q) = q_id q
   \<and> m_bookname (v_metadata (transformQuestionData q)) = q_bookname q
   \<and> m_chapter (v_metadata (transformQuestionData q)) = q_chapter q
   \<and> m_chapter_index (v_metadata (transformQuestionData q)) = q_chapter_index q
   \<and> m_question_number (v_metadata (transformQuestionData q)) = q_question_number q
   \<and> m_correct_answer (v_metadata (transformQuestionData q)) = q_correct_answer q
   \<and> sublist (q_question q) (v_content (transformQuestionData q))
   \<and> list_all (\<lambda>(key, value).
         sublist (key @ '': '' @ value) (v_content (transformQuestionData q))) (q_options q)
   \<and> sublist (q_correct_answer q) (v_content (transformQuestionData q))
   \<and> sublist (trimEnd (q_answer_details q)) (v_content (transformQuestionData q))"
proof -
  let ?c = "v_content (transformQuestionData q)"
  have head: "sublist (content_head q) ?c"
    by (simp only: content_decomposition sublist_append_rightI)
  have in_head: "sublist xs ?c" if "sublist xs (content_head q)" for xs
    using that head by (rule sublist_order.order_trans)
  have question: "sublist (q_question q) ?c"
    by (rule in_head) (rule question_in_head)
  have answer: "sublist (q_correct_answer q) ?c"
    by (rule in_head) (rule correct_answer_in_head)
  have options: "list_all (\<lambda>(key, value). sublist (key @ '': '' @ value) ?c) (q_options q)"
  proof -
    have "sublist (key @ '': '' @ value) ?c"
      if "(key, value) \<in> set (q_options q)" for key "value"
      using option_in_optionsText [OF that] optionsText_in_head [of q]
      by (intro in_head) (rule sublist_order.order_trans)
    then show ?thesis
      by (auto simp: list_all_iff)
  qed
  have details: "sublist (trimEnd (q_answer_details q)) ?c"
  proof (cases "list_all is_space (q_answer_details q)")
    case True
    then have "trimEnd (q_answer_details q) = []"
      by (simp add: trimEnd_def list_all_iff)
    then show ?thesis
      by simp
  next
    case False
    then have "?c = (content_head q @ '' '') @ trimEnd (q_answer_details q)"
      by (simp add: content_decomposition)
    then show ?thesis
      by (simp only: sublist_append_leftI)
  qed
  from question answer options details show ?thesis
    by (simp add: transformQuestionData_def)
qed

text \<open>
  C9 as stated fails: the answer details of the sample question end in a space, the
  content ends with \<open>See chapter 3.\<close>, and the answer details are not part of it.
\<close>

theorem answer_details_trailing_space:
  "q_answer_details sample_question = ''See chapter 3. ''
   \<and> v_content (transformQuestionData sample_question)
     = ''Question: Which vessel supplies the heart?\<newline>      Options:\<newline>      A: Coronary artery\<newline>B: Renal artery\<newline>      Correct Answer: A\<newline>      Answer Details: See chapter 3.''
   \<and> \<not> sublist (q_answer_details sample_question)
          (v_content (transformQuestionData sample_question))"
  by code_simp

end
